theory Spec2Isabelle
  imports Complex_Main "HOL-Library.Product_Lexorder" "HOL-Library.List_Lexorder"
    "HOL-Library.Char_ord"
begin

section \<open>Data model\<close>

text \<open>
  A calendar date is the triple (year, month, day). A timestamp is a date with the
  time of day, counted in nanoseconds from midnight. The lexicographic order on both
  is the chronological order.
\<close>

type_synonym date = "nat \<times> nat \<times> nat"

type_synonym timestamp = "date \<times> nat"

text \<open>
  A cell of a data frame. \<open>Null\<close> stands for every missing value of pandas
  (NaN, None, NaT). \<open>Num\<close> is a finite number, an integer or a float, as an exact
  rational (a boolean is the number 1 or 0): the rounding and the overflow of floats
  are not modelled. \<open>PInf\<close> and \<open>NInf\<close> are the two infinite floats.
\<close>

datatype cell = Null | Str string | Num rat | PInf | NInf | Dt timestamp

type_synonym row = "string \<Rightarrow> cell"

record frame =
  columns :: "string list"
  rows :: "row list"

datatype error = ValueError | DatabaseError string

subsection \<open>Calendar\<close>

definition is_leap :: "nat \<Rightarrow> bool" where
  "is_leap y = (y mod 4 = 0 \<and> (y mod 100 \<noteq> 0 \<or> y mod 400 = 0))"

definition month_lens :: "nat \<Rightarrow> nat list" where
  "month_lens y = [31, if is_leap y then 29 else 28, 31, 30, 31, 30, 31, 31, 30, 31, 30, 31]"

definition month_len :: "nat \<Rightarrow> nat \<Rightarrow> nat" where
  "month_len y m = (if 1 \<le> m \<and> m \<le> 12 then month_lens y ! (m - 1) else 31)"

definition valid_date :: "date \<Rightarrow> bool" where
  "valid_date t = (case t of (y, m, d) \<Rightarrow>
     1 \<le> y \<and> 1 \<le> m \<and> m \<le> 12 \<and> 1 \<le> d \<and> d \<le> month_len y m)"

text \<open>The day after a date: what adding one day (frequency \<open>D\<close>) does.\<close>

definition next_day :: "date \<Rightarrow> date" where
  "next_day t = (case t of (y, m, d) \<Rightarrow>
     if d < month_len y m then (y, m, d + 1)
     else if m < 12 then (y, m + 1, 1)
     else (y + 1, 1, 1))"

text \<open>
  The proleptic Gregorian ordinal of a date (day 1 is 0001-01-01); the difference of
  two ordinals is the whole number of days between two dates, the \<open>.days\<close> of a
  difference of timestamps.
\<close>

definition days_before_year :: "nat \<Rightarrow> int" where
  "days_before_year y =
     (let p = int y - 1 in p * 365 + p div 4 - p div 100 + p div 400)"

definition days_before_month :: "nat \<Rightarrow> nat \<Rightarrow> int" where
  "days_before_month y m = int (sum_list (take (m - 1) (month_lens y)))"

definition toordinal :: "date \<Rightarrow> int" where
  "toordinal t = (case t of (y, m, d) \<Rightarrow>
     days_before_year y + days_before_month y m + int d)"

text \<open>\<open>strftime('%Y%m%d')\<close> read as an integer.\<close>

definition date_key :: "date \<Rightarrow> nat" where
  "date_key t = (case t of (y, m, d) \<Rightarrow> y * 10000 + m * 100 + d)"

text \<open>The nanoseconds of a day, and the timestamps that exist.\<close>

definition day_ns :: nat where
  "day_ns = 86400000000000"

definition valid_ts :: "timestamp \<Rightarrow> bool" where
  "valid_ts ts = (valid_date (fst ts) \<and> snd ts < day_ns)"

text \<open>One day later, at the same time of day.\<close>

definition add_day :: "timestamp \<Rightarrow> timestamp" where
  "add_day ts = (next_day (fst ts), snd ts)"

section \<open>Column resolver\<close>

definition expected_candidates :: "(string \<times> string list) list" where
  "expected_candidates =
    [(''order_id'', [''order_id'', ''order_id'']),
     (''order_date'', [''order_date'', ''orderdate'', ''order_date'']),
     (''ship_date'', [''ship_date'', ''shipdate'']),
     (''ship_mode'', [''ship_mode'', ''shipmode'']),
     (''customer_id'', [''customer_id'', ''customerid'']),
     (''customer_name'', [''customer_name'', ''customername'', ''customer'']),
     (''segment'', [''segment'']),
     (''country'', [''country'']),
     (''city'', [''city'']),
     (''state'', [''state'']),
     (''region'', [''region'']),
     (''postal_code'', [''postal_code'', ''postalcode'', ''zip'', ''zipcode'']),
     (''product_id'', [''product_id'', ''productid'']),
     (''product_name'', [''product_name'', ''productname'', ''product'']),
     (''category'', [''category'']),
     (''sub_category'', [''sub_category'', ''sub-category'', ''subcategory'']),
     (''sales'', [''sales'', ''sales_amount'']),
     (''quantity'', [''quantity'', ''qty'']),
     (''discount'', [''discount'']),
     (''profit'', [''profit''])]"

text \<open>
  \<open>col_map\<close> for a header \<open>hdr\<close> (the normalized column names of the input):
  the first candidate of the logical field that is a column of the input, if any.
\<close>

definition col_map :: "string list \<Rightarrow> string \<Rightarrow> string option" where
  "col_map hdr logical =
     (case map_of expected_candidates logical of
        None \<Rightarrow> None
      | Some candidates \<Rightarrow> find (\<lambda>c. c \<in> set hdr) candidates)"

section \<open>Row sanitizer\<close>

text \<open>The logical fields, in the order in which \<open>copy_col\<close> is called.\<close>

definition logical_fields :: "string list" where
  "logical_fields =
    [''order_id'', ''order_date'', ''ship_date'', ''ship_mode'', ''customer_id'',
     ''customer_name'', ''segment'', ''country'', ''city'', ''state'', ''region'',
     ''postal_code'', ''product_id'', ''product_name'', ''category'', ''sub_category'',
     ''sales'', ''quantity'', ''discount'', ''profit'']"

text \<open>
  \<open>copy_col\<close>, for one row \<open>r\<close> of the input: the value of the mapped source
  column when the logical field has one, else NaN.
\<close>

definition copy_col :: "(string \<Rightarrow> string option) \<Rightarrow> row \<Rightarrow> string \<Rightarrow> cell" where
  "copy_col cm r logical_name =
     (case cm logical_name of Some actual \<Rightarrow> r actual | None \<Rightarrow> Null)"

definition copy_row :: "(string \<Rightarrow> string option) \<Rightarrow> row \<Rightarrow> row" where
  "copy_row cm r k = (if k \<in> set logical_fields then copy_col cm r k else Null)"

text \<open>
  \<open>pd.to_datetime(errors='coerce')\<close> and \<open>pd.to_numeric(errors='coerce')\<close> on one
  cell. A missing value stays missing, a value of the target type is kept, and any
  other value goes through the library's parser, a parameter here. The parser of
  dates gives a timestamp or nothing; what it gives that is no timestamp of the
  calendar becomes missing. The parser of numbers gives a cell: a finite number or an
  infinity (the text \<open>inf\<close> parses to the infinite float) is kept, and any other
  cell means that the value does not parse, and becomes missing.
\<close>

definition to_datetime :: "(cell \<Rightarrow> timestamp option) \<Rightarrow> cell \<Rightarrow> cell" where
  "to_datetime parse c =
     (case c of
        Null \<Rightarrow> Null
      | Dt d \<Rightarrow> if valid_ts d then Dt d else Null
      | _ \<Rightarrow> (case parse c of
                Some d \<Rightarrow> if valid_ts d then Dt d else Null
              | None \<Rightarrow> Null))"

definition to_numeric :: "(cell \<Rightarrow> cell) \<Rightarrow> cell \<Rightarrow> cell" where
  "to_numeric parse c =
     (case c of
        Null \<Rightarrow> Null
      | Num x \<Rightarrow> Num x
      | PInf \<Rightarrow> PInf
      | NInf \<Rightarrow> NInf
      | _ \<Rightarrow> (case parse c of
                Num x \<Rightarrow> Num x
              | PInf \<Rightarrow> PInf
              | NInf \<Rightarrow> NInf
              | _ \<Rightarrow> Null))"

definition numeric_cols :: "string list" where
  "numeric_cols = [''sales'', ''quantity'', ''discount'', ''profit'']"

definition coerce_row ::
  "(cell \<Rightarrow> timestamp option) \<Rightarrow> (cell \<Rightarrow> cell) \<Rightarrow> row \<Rightarrow> row" where
  "coerce_row parse_date parse_num r k =
     (if k = ''order_date'' \<or> k = ''ship_date'' then to_datetime parse_date (r k)
      else if k \<in> set numeric_cols \<and> k \<in> set logical_fields
      then to_numeric parse_num (r k)
      else r k)"

text \<open>\<open>dropna(subset=...)\<close>: keep the rows with no missing value in the subset.\<close>

definition dropna :: "string list \<Rightarrow> row list \<Rightarrow> row list" where
  "dropna subset_cols rs = filter (\<lambda>r. \<forall>c \<in> set subset_cols. r c \<noteq> Null) rs"

text \<open>
  Element-wise operations of numeric columns, with the arithmetic of floats on the
  infinities: \<open>fillna(v)\<close>, the comparison with a number (false on a missing value),
  the sum and the quotient. A missing operand gives a missing result, and so do the
  sum of the two infinities, the quotient of two infinities and that of zero by zero
  (NaN). A zero divisor raises nothing: the quotient of another number by zero is an
  infinity (the sign of a float zero is not modelled).
\<close>

definition fillna :: "rat \<Rightarrow> cell \<Rightarrow> cell" where
  "fillna v c = (case c of Null \<Rightarrow> Num v | _ \<Rightarrow> c)"

fun cell_gt :: "cell \<Rightarrow> rat \<Rightarrow> bool" where
  "cell_gt (Num x) v = (v < x)"
| "cell_gt PInf v = True"
| "cell_gt _ v = False"

fun cell_add :: "cell \<Rightarrow> cell \<Rightarrow> cell" where
  "cell_add (Num a) (Num b) = Num (a + b)"
| "cell_add (Num a) PInf = PInf"
| "cell_add PInf (Num b) = PInf"
| "cell_add PInf PInf = PInf"
| "cell_add (Num a) NInf = NInf"
| "cell_add NInf (Num b) = NInf"
| "cell_add NInf NInf = NInf"
| "cell_add _ _ = Null"

fun cell_div :: "cell \<Rightarrow> cell \<Rightarrow> cell" where
  "cell_div (Num a) (Num b) =
     (if b = 0 then (if a = 0 then Null else if 0 < a then PInf else NInf)
      else Num (a / b))"
| "cell_div (Num a) PInf = Num 0"
| "cell_div (Num a) NInf = Num 0"
| "cell_div PInf (Num b) = (if 0 \<le> b then PInf else NInf)"
| "cell_div NInf (Num b) = (if 0 \<le> b then NInf else PInf)"
| "cell_div _ _ = Null"

definition critical_keys :: "string list" where
  "critical_keys = [''order_id'', ''customer_id'', ''product_id'', ''order_date'']"

text \<open>
  The working frame: the columns copied, the dates and the numbers coerced, the rows
  with a missing critical key dropped, then the rows whose quantity is not positive.
\<close>

definition sanitize ::
  "(cell \<Rightarrow> timestamp option) \<Rightarrow> (cell \<Rightarrow> cell) \<Rightarrow> frame \<Rightarrow> frame" where
  "sanitize parse_date parse_num df =
     (let cm = col_map (columns df);
          work = map (copy_row cm) (rows df);
          work = map (coerce_row parse_date parse_num) work;
          work = dropna critical_keys work;
          work = (if ''quantity'' \<in> set logical_fields
                  then filter (\<lambda>r. cell_gt (fillna 0 (r ''quantity'')) 0) work
                  else work)
      in \<lparr>columns = logical_fields, rows = work\<rparr>)"

section \<open>Dimension builder\<close>

text \<open>\<open>frame[[cols]]\<close>: the frame restricted to the columns \<open>cs\<close>.\<close>

definition project :: "string list \<Rightarrow> row \<Rightarrow> row" where
  "project cs r k = (if k \<in> set cs then r k else Null)"

definition select_cols :: "string list \<Rightarrow> frame \<Rightarrow> frame" where
  "select_cols cs fr = \<lparr>columns = cs, rows = map (project cs) (rows fr)\<rparr>"

text \<open>
  \<open>drop_duplicates()\<close>: a row is dropped when the tuple of its values in the frame's
  columns was seen in an earlier row; the first occurrence is kept, and two missing
  values count as equal.
\<close>

fun drop_dups :: "string list \<Rightarrow> cell list list \<Rightarrow> row list \<Rightarrow> row list" where
  "drop_dups cs seen [] = []"
| "drop_dups cs seen (r # rs) =
     (if map r cs \<in> set seen then drop_dups cs seen rs
      else r # drop_dups cs (map r cs # seen) rs)"

definition drop_duplicates :: "frame \<Rightarrow> frame" where
  "drop_duplicates fr = fr\<lparr>rows := drop_dups (columns fr) [] (rows fr)\<rparr>"

definition customer_cols :: "string list" where
  "customer_cols = [''customer_id'', ''customer_name'', ''segment'', ''country'', ''city'',
     ''state'', ''region'', ''postal_code'']"

definition dim_customer :: "frame \<Rightarrow> frame" where
  "dim_customer work = drop_duplicates (select_cols customer_cols work)"

definition product_cols :: "string list" where
  "product_cols = [''product_id'', ''product_name'', ''category'', ''sub_category'']"

definition dim_product :: "frame \<Rightarrow> frame" where
  "dim_product work = drop_duplicates (select_cols product_cols work)"

text \<open>
  \<open>min()\<close> and \<open>max()\<close> of a column of timestamps skip the missing values and are
  missing (NaT) when no value is left.
\<close>

definition dates_of :: "cell list \<Rightarrow> timestamp list" where
  "dates_of cs = List.map_filter (\<lambda>c. case c of Dt d \<Rightarrow> Some d | _ \<Rightarrow> None) cs"

definition series_min :: "cell list \<Rightarrow> timestamp option" where
  "series_min cs = (case dates_of cs of [] \<Rightarrow> None | d # ds \<Rightarrow> Some (fold min ds d))"

definition series_max :: "cell list \<Rightarrow> timestamp option" where
  "series_max cs = (case dates_of cs of [] \<Rightarrow> None | d # ds \<Rightarrow> Some (fold max ds d))"

definition get_col :: "frame \<Rightarrow> string \<Rightarrow> cell list" where
  "get_col fr c = map (\<lambda>r. r c) (rows fr)"

lemma month_len_le_31: "month_len y m \<le> 31"
proof (cases "1 \<le> m \<and> m \<le> 12")
  case True
  have "\<forall>x \<in> set (month_lens y). x \<le> 31"
    by (simp add: month_lens_def)
  moreover have "length (month_lens y) = 12"
    by (simp add: month_lens_def)
  then have "month_lens y ! (m - 1) \<in> set (month_lens y)"
    using True by (intro nth_mem) arith
  ultimately show ?thesis
    using True by (simp add: month_len_def)
next
  case False
  then show ?thesis by (auto simp: month_len_def)
qed

text \<open>
  \<open>pd.date_range(start, end, freq='D')\<close>: the timestamps from \<open>start\<close> on, one day
  apart, as long as they are not after \<open>end\<close>. The library raises a ValueError when
  \<open>start\<close> or \<open>end\<close> is NaT.
\<close>

function date_range_from :: "timestamp \<Rightarrow> timestamp \<Rightarrow> timestamp list" where
  "date_range_from cur stop =
     (if cur \<le> stop then cur # date_range_from (add_day cur) stop else [])"
  by pat_completeness auto
termination
proof (relation "measures [\<lambda>(c, e). Suc (fst (fst e)) - fst (fst c),
                           \<lambda>(c, e). 12 - fst (snd (fst c)),
                           \<lambda>(c, e). 31 - snd (snd (fst c))]", goal_cases)
  case 1
  show ?case by simp
next
  case (2 cur stop)
  obtain y m d t where c: "cur = ((y, m, d), t)" by (cases cur) auto
  obtain ye me de te where e: "stop = ((ye, me, de), te)" by (cases stop) auto
  have "y \<le> ye" using 2 by (auto simp: c e)
  moreover have "month_len y m \<le> 31" by (rule month_len_le_31)
  ultimately show ?case
    by (auto simp: c e next_day_def add_day_def)
qed

definition date_range ::
  "timestamp option \<Rightarrow> timestamp option \<Rightarrow> error + timestamp list" where
  "date_range start stop =
     (case (start, stop) of
        (Some s, Some e) \<Rightarrow> Inr (date_range_from s e)
      | _ \<Rightarrow> Inl ValueError)"

text \<open>
  The date dimension: one row for each timestamp of the range, with the calendar
  attributes of its date.
\<close>

definition month_names :: "string list" where
  "month_names = [''Jan'', ''Feb'', ''Mar'', ''Apr'', ''May'', ''Jun'', ''Jul'', ''Aug'',
     ''Sep'', ''Oct'', ''Nov'', ''Dec'']"

definition day_names :: "string list" where
  "day_names = [''Monday'', ''Tuesday'', ''Wednesday'', ''Thursday'', ''Friday'',
     ''Saturday'', ''Sunday'']"

text \<open>Monday is day 0.\<close>

definition day_of_week :: "date \<Rightarrow> nat" where
  "day_of_week t = nat ((toordinal t + 6) mod 7)"

definition dim_date_cols :: "string list" where
  "dim_date_cols = [''date'', ''date_key'', ''day'', ''month'', ''month_name'', ''year'',
     ''quarter'', ''day_of_week'', ''day_name'', ''is_weekend'']"

definition dim_date_row :: "timestamp \<Rightarrow> row" where
  "dim_date_row ts = (case fst ts of (y, m, d) \<Rightarrow>
     (\<lambda>k. Null)
      (''date'' := Dt ts,
       ''date_key'' := Num (of_nat (date_key (fst ts))),
       ''day'' := Num (of_nat d),
       ''month'' := Num (of_nat m),
       ''month_name'' := Str (month_names ! (m - 1)),
       ''year'' := Num (of_nat y),
       ''quarter'' := Num (of_nat ((m - 1) div 3 + 1)),
       ''day_of_week'' := Num (of_nat (day_of_week (fst ts))),
       ''day_name'' := Str (day_names ! day_of_week (fst ts)),
       ''is_weekend'' := Num (if day_of_week (fst ts) \<in> {5, 6} then 1 else 0)))"

definition dim_date :: "frame \<Rightarrow> error + frame" where
  "dim_date work =
     (let min_date = series_min (get_col work ''order_date'');
          max_date = series_max (get_col work ''order_date'')
      in case date_range min_date max_date of
           Inl e \<Rightarrow> Inl e
         | Inr days \<Rightarrow> Inr \<lparr>columns = dim_date_cols, rows = map dim_date_row days\<rparr>)"

section \<open>Fact builder\<close>

text \<open>
  \<open>strftime('%Y%m%d').astype(int)\<close> on the order date: a value that is no date
  cannot be converted, and the conversion of the column raises.
\<close>

fun order_date_key :: "cell \<Rightarrow> error + cell" where
  "order_date_key (Dt d) = Inr (Num (of_nat (date_key (fst d))))"
| "order_date_key _ = Inl ValueError"

fun add_order_date_key :: "row list \<Rightarrow> error + row list" where
  "add_order_date_key [] = Inr []"
| "add_order_date_key (r # rs) =
     (case order_date_key (r ''order_date'') of
        Inl e \<Rightarrow> Inl e
      | Inr k \<Rightarrow>
          (case add_order_date_key rs of
             Inl e \<Rightarrow> Inl e
           | Inr rs' \<Rightarrow> Inr (r(''order_date_key'' := k) # rs')))"

text \<open>
  The renaming of the fact builder: every entry but \<open>sales\<close> to \<open>sales_amount\<close>
  maps a name to itself.
\<close>

definition rename_col :: "string \<Rightarrow> string \<Rightarrow> row \<Rightarrow> row" where
  "rename_col old new r k = (if k = new then r old else if k = old then Null else r k)"

text \<open>Assigning a column appends its name unless the frame already has it.\<close>

definition with_col :: "string \<Rightarrow> string list \<Rightarrow> string list" where
  "with_col c cols = (if c \<in> set cols then cols else cols @ [c])"

definition np_where :: "bool \<Rightarrow> cell \<Rightarrow> cell \<Rightarrow> cell" where
  "np_where cond x y = (if cond then x else y)"

definition keep_cols :: "string list" where
  "keep_cols = [''sales_id'', ''order_id'', ''order_date'', ''order_date_key'',
     ''ship_date'', ''ship_mode'', ''customer_id'', ''product_id'',
     ''country'', ''city'', ''state'', ''region'',
     ''quantity'', ''sales_amount'', ''gross_sales'',
     ''discount'', ''discount_pct'', ''profit'']"

definition gross_sales :: "row \<Rightarrow> cell" where
  "gross_sales r = cell_add (fillna 0 (r ''sales_amount'')) (fillna 0 (r ''discount''))"

text \<open>
  The quotient is computed for every row, also where \<open>gross_sales\<close> is zero;
  \<open>np.where\<close> then selects it only where \<open>gross_sales > 0\<close>.
\<close>

definition discount_pct :: "row \<Rightarrow> cell" where
  "discount_pct r =
     np_where (cell_gt (r ''gross_sales'') 0)
       (cell_div (fillna 0 (r ''discount'')) (r ''gross_sales''))
       (Num 0)"

definition fact_sales :: "frame \<Rightarrow> error + frame" where
  "fact_sales work =
     (case add_order_date_key (rows work) of
        Inl e \<Rightarrow> Inl e
      | Inr rs \<Rightarrow>
         (let cols = with_col ''order_date_key'' (columns work);
              cols = map (\<lambda>c. if c = ''sales'' then ''sales_amount'' else c) cols;
              rs = map (rename_col ''sales'' ''sales_amount'') rs;
              rs = map (\<lambda>(i, r). r(''sales_id'' := Num (of_nat (i + 1)))) (enumerate 0 rs);
              cols = with_col ''sales_id'' cols;
              rs = map (\<lambda>r. r(''gross_sales'' := gross_sales r)) rs;
              cols = with_col ''gross_sales'' cols;
              rs = map (\<lambda>r. r(''discount_pct'' := discount_pct r)) rs;
              cols = with_col ''discount_pct'' cols;
              keep_existing = filter (\<lambda>c. c \<in> set cols) keep_cols
          in Inr (select_cols keep_existing \<lparr>columns = cols, rows = rs\<rparr>)))"

section \<open>Metrics engine\<close>

text \<open>Aggregations of a column: \<open>sum\<close> adds the values that are not missing, from 0
  on, \<open>nunique\<close> counts the distinct values that are not missing, \<open>count\<close> the values
  that are not missing.\<close>

definition num_val :: "cell \<Rightarrow> rat" where
  "num_val c = (case c of Num x \<Rightarrow> x | _ \<Rightarrow> 0)"

definition series_sum :: "cell list \<Rightarrow> cell" where
  "series_sum cs = foldl cell_add (Num 0) (filter (\<lambda>c. c \<noteq> Null) cs)"

definition nunique :: "cell list \<Rightarrow> nat" where
  "nunique cs = length (remdups (filter (\<lambda>c. c \<noteq> Null) cs))"

definition count_notna :: "cell list \<Rightarrow> nat" where
  "count_notna cs = length (filter (\<lambda>c. c \<noteq> Null) cs)"

definition date_cell :: "timestamp option \<Rightarrow> cell" where
  "date_cell d = (case d of Some t \<Rightarrow> Dt t | None \<Rightarrow> Null)"

text \<open>
  The \<open>days\<close> of the difference of two timestamps: the whole days from the second to
  the first, rounded down.
\<close>

definition ts_days :: "timestamp \<Rightarrow> timestamp \<Rightarrow> int" where
  "ts_days a b = toordinal (fst a) - toordinal (fst b) - (if snd a < snd b then 1 else 0)"

fun days_between :: "cell \<Rightarrow> cell \<Rightarrow> cell" where
  "days_between (Dt a) (Dt b) = Num (of_int (ts_days a b))"
| "days_between _ _ = Null"

text \<open>
  The keys of a \<open>groupby\<close> are the distinct values that are not missing, sorted;
  among keys of mixed types numbers come before timestamps, and these before strings.
\<close>

definition cell_sort_key :: "cell \<Rightarrow> nat \<times> rat \<times> string \<times> timestamp" where
  "cell_sort_key c =
     (case c of
        NInf \<Rightarrow> (0, 0, [], ((0, 0, 0), 0))
      | Num x \<Rightarrow> (1, x, [], ((0, 0, 0), 0))
      | PInf \<Rightarrow> (2, 0, [], ((0, 0, 0), 0))
      | Dt d \<Rightarrow> (3, 0, [], d)
      | Str s \<Rightarrow> (4, 0, s, ((0, 0, 0), 0))
      | Null \<Rightarrow> (5, 0, [], ((0, 0, 0), 0)))"

definition group_keys :: "cell list \<Rightarrow> cell list" where
  "group_keys cs = sort_key cell_sort_key (remdups (filter (\<lambda>c. c \<noteq> Null) cs))"

text \<open>
  \<open>Series.quantile\<close> with its default linear interpolation: on the sorted values
  that are not missing, the value at the fractional position \<open>(n - 1) * q\<close>, which
  the library interpolates between the two neighbours \<open>a\<close> and \<open>b\<close> as
  \<open>a + (b - a) * t\<close> below the middle and as \<open>b - (b - a) * (1 - t)\<close> from the
  middle on.
\<close>

definition nums_of :: "cell list \<Rightarrow> rat list" where
  "nums_of cs = List.map_filter (\<lambda>c. case c of Num x \<Rightarrow> Some x | _ \<Rightarrow> None) cs"

definition sorted_values :: "cell list \<Rightarrow> cell list" where
  "sorted_values cs =
     replicate (length (filter (\<lambda>c. c = NInf) cs)) NInf @ map Num (sort (nums_of cs)) @
     replicate (length (filter (\<lambda>c. c = PInf) cs)) PInf"

fun cell_neg :: "cell \<Rightarrow> cell" where
  "cell_neg (Num a) = Num (- a)"
| "cell_neg PInf = NInf"
| "cell_neg NInf = PInf"
| "cell_neg _ = Null"

text \<open>The product with a number that is not negative.\<close>

fun cell_scale :: "cell \<Rightarrow> rat \<Rightarrow> cell" where
  "cell_scale (Num a) t = Num (a * t)"
| "cell_scale PInf t = (if t = 0 then Null else PInf)"
| "cell_scale NInf t = (if t = 0 then Null else NInf)"
| "cell_scale _ t = Null"

definition lerp :: "cell \<Rightarrow> cell \<Rightarrow> rat \<Rightarrow> cell" where
  "lerp a b t =
     (let diff_b_a = cell_add b (cell_neg a)
      in if t < 1 / 2 then cell_add a (cell_scale diff_b_a t)
         else cell_add b (cell_neg (cell_scale diff_b_a (1 - t))))"

definition quantile :: "cell list \<Rightarrow> rat \<Rightarrow> cell" where
  "quantile series q =
     (let xs = sorted_values series; n = length xs
      in if n = 0 then Null
         else let h = of_nat (n - 1) * q;
                  lo = nat \<lfloor>h\<rfloor>;
                  hi = min (lo + 1) (n - 1);
                  frac = h - of_nat lo
              in lerp (xs ! lo) (xs ! hi) frac)"

text \<open>The comparison \<open>x <= y\<close> of two floats: false when one of them is missing.\<close>

fun cell_le :: "cell \<Rightarrow> cell \<Rightarrow> bool" where
  "cell_le (Num a) (Num b) = (a \<le> b)"
| "cell_le (Num a) PInf = True"
| "cell_le NInf (Num b) = True"
| "cell_le NInf NInf = True"
| "cell_le NInf PInf = True"
| "cell_le PInf PInf = True"
| "cell_le _ _ = False"

definition scorer :: "(rat \<Rightarrow> cell) \<Rightarrow> cell \<Rightarrow> nat" where
  "scorer q x =
     (if cell_le x (q (1 / 4)) then 1
      else if cell_le x (q (1 / 2)) then 2
      else if cell_le x (q (3 / 4)) then 3
      else 4)"

definition score_from_quantiles :: "cell list \<Rightarrow> nat list" where
  "score_from_quantiles series = (let q = quantile series in map (scorer q) series)"

text \<open>\<open>astype(str)\<close> of a whole number.\<close>

fun str_nat :: "nat \<Rightarrow> string" where
  "str_nat n =
     (if n < 10 then [char_of (48 + n)]
      else str_nat (n div 10) @ [char_of (48 + n mod 10)])"

definition astype_str :: "cell \<Rightarrow> string" where
  "astype_str c = (case c of Num x \<Rightarrow> str_nat (nat \<lfloor>x\<rfloor>) | _ \<Rightarrow> ''nan'')"

definition order_id_col :: "frame \<Rightarrow> string" where
  "order_id_col fs = (if ''order_id'' \<in> set (columns fs) then ''order_id'' else ''sales_id'')"

definition count_orders :: "frame \<Rightarrow> row list \<Rightarrow> cell" where
  "count_orders fs grp =
     (let cs = map (\<lambda>r. r (order_id_col fs)) grp
      in Num (of_nat (if order_id_col fs \<in> set (columns fs)
                      then nunique cs else count_notna cs)))"

definition customer_agg :: "frame \<Rightarrow> cell \<Rightarrow> row" where
  "customer_agg fs k =
     (let grp = filter (\<lambda>r. r ''customer_id'' = k) (rows fs)
      in (\<lambda>c. Null)
          (''customer_id'' := k,
           ''total_revenue'' := series_sum (map (\<lambda>r. r ''sales_amount'') grp),
           ''total_profit'' := series_sum (map (\<lambda>r. r ''profit'') grp),
           ''total_orders'' := count_orders fs grp,
           ''total_quantity'' := series_sum (map (\<lambda>r. r ''quantity'') grp),
           ''first_order_date'' := date_cell (series_min (map (\<lambda>r. r ''order_date'') grp)),
           ''last_order_date'' := date_cell (series_max (map (\<lambda>r. r ''order_date'') grp))))"

definition set_col :: "string \<Rightarrow> cell list \<Rightarrow> row list \<Rightarrow> row list" where
  "set_col c vals rs = map (\<lambda>(r, v). r(c := v)) (zip rs vals)"

definition rfm_scores :: "row list \<Rightarrow> row list" where
  "rfm_scores cm =
     (let r_score = score_from_quantiles (map (\<lambda>r. r ''days_since_last_order'') cm);
          cm = set_col ''R'' (map (\<lambda>s. Num (5 - of_nat s)) r_score) cm;
          cm = set_col ''F''
                 (map (\<lambda>s. Num (of_nat s))
                    (score_from_quantiles (map (\<lambda>r. r ''total_orders'') cm))) cm;
          cm = set_col ''M''
                 (map (\<lambda>s. Num (of_nat s))
                    (score_from_quantiles (map (\<lambda>r. r ''total_revenue'') cm))) cm
      in map (\<lambda>r. r(''RFM_score'' :=
                 Str (astype_str (r ''R'') @ astype_str (r ''F'') @ astype_str (r ''M'')))) cm)"

definition customer_metrics_cols :: "string list" where
  "customer_metrics_cols = [''customer_id'', ''total_revenue'', ''total_profit'',
     ''total_orders'', ''total_quantity'', ''first_order_date'', ''last_order_date'',
     ''days_since_last_order'', ''avg_order_value'', ''R'', ''F'', ''M'', ''RFM_score'']"

text \<open>\<open>now\<close> is the current time, read when the fact frame has no \<open>order_date\<close>.\<close>

definition customer_metrics :: "timestamp \<Rightarrow> frame \<Rightarrow> frame" where
  "customer_metrics now fs =
     (let cm = map (customer_agg fs) (group_keys (get_col fs ''customer_id''));
          max_order_date = (if ''order_date'' \<in> set (columns fs)
                            then date_cell (series_max (get_col fs ''order_date''))
                            else Dt now);
          cm = map (\<lambda>r. r(''days_since_last_order'' :=
                      days_between max_order_date (r ''last_order_date''))) cm;
          cm = map (\<lambda>r. r(''avg_order_value'' :=
                      np_where (cell_gt (r ''total_orders'') 0)
                        (cell_div (r ''total_revenue'') (r ''total_orders''))
                        (Num 0))) cm
      in \<lparr>columns = customer_metrics_cols, rows = rfm_scores cm\<rparr>)"

text \<open>The year and the month of a date column; a missing date has neither.\<close>

definition dt_year :: "cell \<Rightarrow> cell" where
  "dt_year c = (case c of Dt ((y, m, d), t) \<Rightarrow> Num (of_nat y) | _ \<Rightarrow> Null)"

definition dt_month :: "cell \<Rightarrow> cell" where
  "dt_month c = (case c of Dt ((y, m, d), t) \<Rightarrow> Num (of_nat m) | _ \<Rightarrow> Null)"

definition year_month :: "row \<Rightarrow> (rat \<times> rat) option" where
  "year_month r =
     (case (r ''year'', r ''month'') of
        (Num y, Num m) \<Rightarrow> Some (y, m)
      | _ \<Rightarrow> None)"

definition monthly_agg :: "frame \<Rightarrow> rat \<times> rat \<Rightarrow> row" where
  "monthly_agg fs k =
     (let grp = filter (\<lambda>r. year_month r = Some k) (rows fs)
      in (\<lambda>c. Null)
          (''year'' := Num (fst k),
           ''month'' := Num (snd k),
           ''monthly_revenue'' := series_sum (map (\<lambda>r. r ''sales_amount'') grp),
           ''monthly_profit'' :=
              series_sum (map (\<lambda>r. r (if ''profit'' \<in> set (columns fs)
                                        then ''profit'' else ''sales_amount'')) grp),
           ''total_orders'' := count_orders fs grp))"

text \<open>\<open>cumsum()\<close>: the running sum; a missing value stays missing and adds nothing.\<close>

fun cumsum_from :: "cell \<Rightarrow> cell list \<Rightarrow> cell list" where
  "cumsum_from acc [] = []"
| "cumsum_from acc (c # cs) =
     (if c = Null then Null # cumsum_from acc cs
      else cell_add acc c # cumsum_from (cell_add acc c) cs)"

definition cumsum :: "cell list \<Rightarrow> cell list" where
  "cumsum cs = cumsum_from (Num 0) cs"

definition monthly_sales_cols :: "string list" where
  "monthly_sales_cols = [''year'', ''month'', ''monthly_revenue'', ''monthly_profit'',
     ''total_orders'', ''cumulative_revenue'']"

text \<open>
  The monthly rollup. It adds the columns \<open>year\<close> and \<open>month\<close> to the fact frame,
  which is returned with it.
\<close>

definition monthly_sales :: "frame \<Rightarrow> frame \<times> frame" where
  "monthly_sales fs =
     (if ''order_date'' \<in> set (columns fs) \<and> ''sales_amount'' \<in> set (columns fs) then
        (let fs = \<lparr>columns = with_col ''month'' (with_col ''year'' (columns fs)),
                   rows = map (\<lambda>r. r(''year'' := dt_year (r ''order_date''),
                                       ''month'' := dt_month (r ''order_date''))) (rows fs)\<rparr>;
             ms = map (monthly_agg fs) (sort (remdups (List.map_filter year_month (rows fs))));
             ms = sort_key (\<lambda>r. (num_val (r ''year''), num_val (r ''month''))) ms;
             ms = set_col ''cumulative_revenue''
                    (cumsum (map (\<lambda>r. r ''monthly_revenue'') ms)) ms
         in (fs, \<lparr>columns = monthly_sales_cols, rows = ms\<rparr>))
      else (fs, \<lparr>columns = [], rows = []\<rparr>))"

section \<open>The pipeline and the sink\<close>

record tables =
  t_dim_customer :: frame
  t_dim_product :: frame
  t_dim_date :: frame
  t_fact_sales :: frame
  t_customer_metrics :: frame
  t_monthly_sales :: frame

text \<open>
  The transform stages in the order of the script. An error of a stage ends the run:
  no later stage is computed and nothing is written.
\<close>

definition pipeline ::
  "timestamp \<Rightarrow> (cell \<Rightarrow> timestamp option) \<Rightarrow> (cell \<Rightarrow> cell) \<Rightarrow> frame \<Rightarrow> error + tables" where
  "pipeline now parse_date parse_num df =
     (let work = sanitize parse_date parse_num df;
          dc = dim_customer work;
          dp = dim_product work
      in case dim_date work of
           Inl e \<Rightarrow> Inl e
         | Inr dd \<Rightarrow>
            (case fact_sales work of
               Inl e \<Rightarrow> Inl e
             | Inr fs \<Rightarrow>
                (let cm = customer_metrics now fs;
                     (fs, ms) = monthly_sales fs
                 in Inr \<lparr>t_dim_customer = dc, t_dim_product = dp, t_dim_date = dd,
                         t_fact_sales = fs, t_customer_metrics = cm,
                         t_monthly_sales = ms\<rparr>)))"

definition TABLE_PREFIX :: string where
  "TABLE_PREFIX = ''sa_''"

text \<open>A database is a map from table names to tables.\<close>

type_synonym database = "string \<rightharpoonup> frame"

definition to_sql_safe :: "frame \<Rightarrow> string \<Rightarrow> database \<Rightarrow> database" where
  "to_sql_safe df_obj name db =
     (if rows df_obj \<noteq> [] \<and> columns df_obj \<noteq> []
      then db(TABLE_PREFIX @ name \<mapsto> df_obj) else db)"

definition write_tables :: "tables \<Rightarrow> database \<Rightarrow> database" where
  "write_tables t db =
     (let db = to_sql_safe (t_dim_customer t) ''dim_customer'' db;
          db = to_sql_safe (t_dim_product t) ''dim_product'' db;
          db = to_sql_safe (t_dim_date t) ''dim_date'' db;
          db = to_sql_safe (t_fact_sales t) ''fact_sales'' db;
          db = to_sql_safe (t_customer_metrics t) ''customer_metrics'' db
      in to_sql_safe (t_monthly_sales t) ''monthly_sales'' db)"

section \<open>Export of the tables to flat files\<close>

definition export_tables :: "string list" where
  "export_tables = [''sa_fact_sales'', ''sa_dim_customer'', ''sa_dim_product'',
     ''sa_dim_date'', ''sa_customer_metrics'', ''sa_monthly_sales'']"

text \<open>
  The export loop. Its state is the list of the files written so far, each with the
  table it holds. Reading a table that the database does not have raises a
  DatabaseError, which nothing catches: the loop ends there.
\<close>

definition read_sql_query :: "database \<Rightarrow> string \<Rightarrow> error + frame" where
  "read_sql_query conn table =
     (case conn table of None \<Rightarrow> Inl (DatabaseError table) | Some df \<Rightarrow> Inr df)"

fun export_loop ::
  "database \<Rightarrow> string list \<Rightarrow> (string \<times> frame) list \<Rightarrow> (string \<times> frame) list \<times> error option" where
  "export_loop conn [] files = (files, None)"
| "export_loop conn (table # ts) files =
     (case read_sql_query conn table of
        Inl e \<Rightarrow> (files, Some e)
      | Inr df \<Rightarrow> export_loop conn ts (files @ [(table @ ''.csv'', df)]))"

definition export :: "database \<Rightarrow> (string \<times> frame) list \<times> error option" where
  "export conn = export_loop conn export_tables []"

section \<open>Properties of the sanitizer\<close>

lemma quantity_in_logical_fields: "''quantity'' \<in> set logical_fields"
  by (simp add: logical_fields_def)

lemma rows_sanitize:
  "rows (sanitize parse_date parse_num df) =
     filter (\<lambda>r. cell_gt (fillna 0 (r ''quantity'')) 0)
       (dropna critical_keys
          (map (coerce_row parse_date parse_num)
             (map (copy_row (col_map (columns df))) (rows df))))"
  by (simp add: sanitize_def Let_def quantity_in_logical_fields)

lemma columns_sanitize: "columns (sanitize parse_date parse_num df) = logical_fields"
  by (simp add: sanitize_def Let_def)

lemma cell_gt_fillna:
  "cell_gt (fillna 0 c) 0 \<longleftrightarrow> (\<exists>q. c = Num q \<and> 0 < q) \<or> c = PInf"
  by (cases c) (simp_all add: fillna_def)

lemma dropna_critical:
  "dropna critical_keys rs =
     filter (\<lambda>r. r ''order_id'' \<noteq> Null \<and> r ''customer_id'' \<noteq> Null \<and>
                   r ''product_id'' \<noteq> Null \<and> r ''order_date'' \<noteq> Null) rs"
  by (simp add: dropna_def critical_keys_def)

lemma candidates_head:
  "\<forall>l \<in> set logical_fields. \<exists>cs. map_of expected_candidates l = Some (l # cs)"
  by (simp add: logical_fields_def expected_candidates_def)

lemma col_map_self:
  assumes "l \<in> set logical_fields" "l \<in> set hdr"
  shows "col_map hdr l = Some l"
proof -
  obtain cs where "map_of expected_candidates l = Some (l # cs)"
    using candidates_head assms(1) by blast
  then show ?thesis
    using assms(2) by (simp add: col_map_def)
qed

text \<open>The cells of a working row, before the filters.\<close>

lemma coerce_row_Null: "r k = Null \<Longrightarrow> coerce_row pd pn r k = Null"
  by (simp add: coerce_row_def to_datetime_def to_numeric_def)

lemma work_cell_absent:
  assumes "col_map hdr k = None"
  shows "coerce_row pd pn (copy_row (col_map hdr) r) k = Null"
proof -
  have "copy_row (col_map hdr) r k = Null"
    using assms by (simp add: copy_row_def copy_col_def)
  then show ?thesis by (rule coerce_row_Null)
qed

lemma work_cell_date:
  assumes "k = ''order_date'' \<or> k = ''ship_date''" "k \<in> set hdr"
  shows "coerce_row pd pn (copy_row (col_map hdr) r) k = to_datetime pd (r k)"
proof -
  have "k \<in> set logical_fields"
    using assms(1) by (auto simp: logical_fields_def)
  then have "copy_row (col_map hdr) r k = r k"
    using assms(2) by (simp add: copy_row_def copy_col_def col_map_self)
  then show ?thesis
    using assms(1) by (simp add: coerce_row_def)
qed

lemma work_cell_numeric:
  assumes "k \<in> set numeric_cols" "k \<in> set hdr"
  shows "coerce_row pd pn (copy_row (col_map hdr) r) k = to_numeric pn (r k)"
proof -
  have l: "k \<in> set logical_fields"
    using assms(1) by (auto simp: logical_fields_def numeric_cols_def)
  then have "copy_row (col_map hdr) r k = r k"
    using assms(2) by (simp add: copy_row_def copy_col_def col_map_self)
  moreover have "k \<noteq> ''order_date''" "k \<noteq> ''ship_date''"
    using assms(1) by (auto simp: numeric_cols_def)
  ultimately show ?thesis
    using assms(1) l by (simp add: coerce_row_def)
qed

lemma work_cell_plain:
  assumes "k \<in> set logical_fields" "k \<in> set hdr" "k \<notin> set numeric_cols"
    "k \<noteq> ''order_date''" "k \<noteq> ''ship_date''"
  shows "coerce_row pd pn (copy_row (col_map hdr) r) k = r k"
  using assms by (simp add: coerce_row_def copy_row_def copy_col_def col_map_self)

lemma to_datetime_Dt: "valid_ts d \<Longrightarrow> to_datetime pd (Dt d) = Dt d"
  by (simp add: to_datetime_def)

lemma to_numeric_Num: "to_numeric pn (Num x) = Num x"
  by (simp add: to_numeric_def)

lemma to_numeric_Null: "to_numeric pn Null = Null"
  by (simp add: to_numeric_def)

lemma to_numeric_Str:
  "to_numeric pn (Str s) =
     (case pn (Str s) of Num x \<Rightarrow> Num x | PInf \<Rightarrow> PInf | NInf \<Rightarrow> NInf | _ \<Rightarrow> Null)"
  by (simp add: to_numeric_def)

text \<open>
  Claim C1. Every row of the working frame has an order id, a customer id, a product id
  and an order date that are not missing, and a quantity greater than zero: a finite
  number greater than zero or the infinite float. The working rows are the copied and
  coerced input rows, filtered first on the four required fields and then on the
  quantity, where a missing quantity counts as 0 and is therefore dropped.
\<close>

theorem sanitize_invariant:
  "(\<forall>r \<in> set (rows (sanitize parse_date parse_num df)).
      r ''order_id'' \<noteq> Null \<and> r ''customer_id'' \<noteq> Null \<and> r ''product_id'' \<noteq> Null \<and>
      r ''order_date'' \<noteq> Null \<and> r ''quantity'' \<noteq> Null \<and> cell_gt (r ''quantity'') 0 \<and>
      ((\<exists>q. r ''quantity'' = Num q \<and> 0 < q) \<or> r ''quantity'' = PInf)) \<and>
   rows (sanitize parse_date parse_num df) =
     filter (\<lambda>r. cell_gt (fillna 0 (r ''quantity'')) 0)
       (filter (\<lambda>r. r ''order_id'' \<noteq> Null \<and> r ''customer_id'' \<noteq> Null \<and>
                     r ''product_id'' \<noteq> Null \<and> r ''order_date'' \<noteq> Null)
          (map (coerce_row parse_date parse_num)
             (map (copy_row (col_map (columns df))) (rows df))))"
proof -
  have "rows (sanitize parse_date parse_num df) =
     filter (\<lambda>r. cell_gt (fillna 0 (r ''quantity'')) 0)
       (filter (\<lambda>r. r ''order_id'' \<noteq> Null \<and> r ''customer_id'' \<noteq> Null \<and>
                     r ''product_id'' \<noteq> Null \<and> r ''order_date'' \<noteq> Null)
          (map (coerce_row parse_date parse_num)
             (map (copy_row (col_map (columns df))) (rows df))))"
    by (simp only: rows_sanitize dropna_critical)
  moreover have "r ''quantity'' \<noteq> Null \<and> cell_gt (r ''quantity'') 0 \<and>
      ((\<exists>q. r ''quantity'' = Num q \<and> 0 < q) \<or> r ''quantity'' = PInf)"
    if "cell_gt (fillna 0 (r ''quantity'')) 0" for r
    using that by (cases "r ''quantity''") (simp_all add: fillna_def)
  ultimately show ?thesis
    by (auto simp: rows_sanitize dropna_critical)
qed

section \<open>Example input\<close>

definition ex_header :: "string list" where
  "ex_header = [''order_id'', ''customer_id'', ''product_id'', ''order_date'', ''quantity'',
     ''sales'', ''discount'', ''city'']"

definition ex_row ::
  "cell \<Rightarrow> cell \<Rightarrow> cell \<Rightarrow> cell \<Rightarrow> cell \<Rightarrow> cell \<Rightarrow> cell \<Rightarrow> cell \<Rightarrow> row" where
  "ex_row oid cid pid od q s d c k =
     (if k = ''order_id'' then oid
      else if k = ''customer_id'' then cid
      else if k = ''product_id'' then pid
      else if k = ''order_date'' then od
      else if k = ''quantity'' then q
      else if k = ''sales'' then s
      else if k = ''discount'' then d
      else if k = ''city'' then c
      else Null)"

text \<open>
  The parsers of the example: no text is a date, and the text \<open>inf\<close> is the infinite
  float.
\<close>

definition ex_parse_date :: "cell \<Rightarrow> timestamp option" where
  "ex_parse_date c = None"

definition ex_parse_num :: "cell \<Rightarrow> cell" where
  "ex_parse_num c = (if c = Str ''inf'' then PInf else Null)"

definition ex_r1 :: row where
  "ex_r1 = ex_row (Num 1) (Str ''C1'') (Str ''P1'') (Dt ((2024, 2, 28), 0)) (Num 2) (Num 100)
     (Num 10) (Str ''Rome'')"

definition ex_r2 :: row where
  "ex_r2 = ex_row (Num 2) (Str ''C1'') (Str ''P2'') (Dt ((2024, 3, 2), 0)) (Num 3)
     (Num (- 150)) Null (Str ''Oslo'')"

definition ex_r3 :: row where
  "ex_r3 = ex_row Null (Str ''C2'') (Str ''P1'') (Dt ((2024, 3, 2), 0)) (Num 5) (Num 20)
     Null (Str ''Rome'')"

definition ex_r4 :: row where
  "ex_r4 = ex_row (Num 4) (Str ''C2'') (Str ''P1'') (Dt ((2024, 3, 2), 0)) (Num 0) (Num 20)
     Null (Str ''Rome'')"

definition ex_r5 :: row where
  "ex_r5 = ex_row (Num 5) (Str ''C3'') (Str ''P1'') (Dt ((2024, 3, 2), 0)) (Num 4) (Num 0)
     Null (Str ''Rome'')"

definition ex_r6 :: row where
  "ex_r6 = ex_row (Num 6) (Str ''C3'') (Str ''P1'') (Dt ((2024, 3, 2), 0)) (Str ''inf'')
     (Num 20) Null (Str ''Rome'')"

definition ex_df :: frame where
  "ex_df = \<lparr>columns = ex_header, rows = [ex_r1, ex_r2, ex_r3, ex_r4]\<rparr>"


definition ex_inf_df :: frame where
  "ex_inf_df = \<lparr>columns = ex_header, rows = [ex_r3, ex_r6, ex_r4]\<rparr>"

definition ex_work :: "row \<Rightarrow> row" where
  "ex_work r = coerce_row ex_parse_date ex_parse_num (copy_row (col_map ex_header) r)"

lemma ex_row_cells:
  "ex_row oid cid pid od q s d c ''order_id'' = oid"
  "ex_row oid cid pid od q s d c ''customer_id'' = cid"
  "ex_row oid cid pid od q s d c ''product_id'' = pid"
  "ex_row oid cid pid od q s d c ''order_date'' = od"
  "ex_row oid cid pid od q s d c ''quantity'' = q"
  "ex_row oid cid pid od q s d c ''sales'' = s"
  "ex_row oid cid pid od q s d c ''discount'' = d"
  "ex_row oid cid pid od q s d c ''city'' = c"
  by (simp_all add: ex_row_def)

lemma ex_work_present:
  "ex_work r ''order_id'' = r ''order_id''"
  "ex_work r ''customer_id'' = r ''customer_id''"
  "ex_work r ''product_id'' = r ''product_id''"
  "ex_work r ''city'' = r ''city''"
  "ex_work r ''order_date'' = to_datetime ex_parse_date (r ''order_date'')"
  "ex_work r ''quantity'' = to_numeric ex_parse_num (r ''quantity'')"
  "ex_work r ''sales'' = to_numeric ex_parse_num (r ''sales'')"
  "ex_work r ''discount'' = to_numeric ex_parse_num (r ''discount'')"
  unfolding ex_work_def
  by (simp_all add: work_cell_plain work_cell_date work_cell_numeric ex_header_def
      logical_fields_def numeric_cols_def)

lemma ex_col_map_absent:
  "col_map ex_header ''ship_date'' = None"
  "col_map ex_header ''ship_mode'' = None"
  "col_map ex_header ''customer_name'' = None"
  "col_map ex_header ''segment'' = None"
  "col_map ex_header ''country'' = None"
  "col_map ex_header ''state'' = None"
  "col_map ex_header ''region'' = None"
  "col_map ex_header ''postal_code'' = None"
  "col_map ex_header ''product_name'' = None"
  "col_map ex_header ''category'' = None"
  "col_map ex_header ''sub_category'' = None"
  "col_map ex_header ''profit'' = None"
  by (simp_all add: col_map_def expected_candidates_def ex_header_def)

lemma ex_work_absent:
  "ex_work r ''ship_date'' = Null"
  "ex_work r ''ship_mode'' = Null"
  "ex_work r ''customer_name'' = Null"
  "ex_work r ''segment'' = Null"
  "ex_work r ''country'' = Null"
  "ex_work r ''state'' = Null"
  "ex_work r ''region'' = Null"
  "ex_work r ''postal_code'' = Null"
  "ex_work r ''product_name'' = Null"
  "ex_work r ''category'' = Null"
  "ex_work r ''sub_category'' = Null"
  "ex_work r ''profit'' = Null"
  unfolding ex_work_def
  by (simp_all add: work_cell_absent ex_col_map_absent)

lemma valid_ex_dates: "valid_ts ((2024, 2, 28), 0)" "valid_ts ((2024, 3, 2), 0)"
  by (simp_all add: valid_ts_def valid_date_def month_len_def month_lens_def is_leap_def
      day_ns_def)

lemma ex_work_r1:
  "ex_work ex_r1 ''order_id'' = Num 1"
  "ex_work ex_r1 ''customer_id'' = Str ''C1''"
  "ex_work ex_r1 ''product_id'' = Str ''P1''"
  "ex_work ex_r1 ''city'' = Str ''Rome''"
  "ex_work ex_r1 ''order_date'' = Dt ((2024, 2, 28), 0)"
  "ex_work ex_r1 ''quantity'' = Num 2"
  "ex_work ex_r1 ''sales'' = Num 100"
  "ex_work ex_r1 ''discount'' = Num 10"
  by (simp_all add: ex_work_present ex_r1_def ex_row_cells to_datetime_Dt valid_ex_dates
      to_numeric_Num to_numeric_Null)

lemma ex_work_r2:
  "ex_work ex_r2 ''order_id'' = Num 2"
  "ex_work ex_r2 ''customer_id'' = Str ''C1''"
  "ex_work ex_r2 ''product_id'' = Str ''P2''"
  "ex_work ex_r2 ''city'' = Str ''Oslo''"
  "ex_work ex_r2 ''order_date'' = Dt ((2024, 3, 2), 0)"
  "ex_work ex_r2 ''quantity'' = Num 3"
  "ex_work ex_r2 ''sales'' = Num (- 150)"
  "ex_work ex_r2 ''discount'' = Null"
  by (simp_all add: ex_work_present ex_r2_def ex_row_cells to_datetime_Dt valid_ex_dates
      to_numeric_Num to_numeric_Null)

lemma ex_work_r3: "ex_work ex_r3 ''order_id'' = Null"
  by (simp add: ex_work_present ex_r3_def ex_row_cells)

lemma ex_work_r4:
  "ex_work ex_r4 ''order_id'' = Num 4"
  "ex_work ex_r4 ''customer_id'' = Str ''C2''"
  "ex_work ex_r4 ''product_id'' = Str ''P1''"
  "ex_work ex_r4 ''order_date'' = Dt ((2024, 3, 2), 0)"
  "ex_work ex_r4 ''quantity'' = Num 0"
  by (simp_all add: ex_work_present ex_r4_def ex_row_cells to_datetime_Dt valid_ex_dates
      to_numeric_Num)

lemma ex_work_r5:
  "ex_work ex_r5 ''order_id'' = Num 5"
  "ex_work ex_r5 ''customer_id'' = Str ''C3''"
  "ex_work ex_r5 ''product_id'' = Str ''P1''"
  "ex_work ex_r5 ''order_date'' = Dt ((2024, 3, 2), 0)"
  "ex_work ex_r5 ''quantity'' = Num 4"
  "ex_work ex_r5 ''sales'' = Num 0"
  "ex_work ex_r5 ''discount'' = Null"
  by (simp_all add: ex_work_present ex_r5_def ex_row_cells to_datetime_Dt valid_ex_dates
      to_numeric_Num to_numeric_Null)

lemma ex_work_r6:
  "ex_work ex_r6 ''order_id'' = Num 6"
  "ex_work ex_r6 ''customer_id'' = Str ''C3''"
  "ex_work ex_r6 ''product_id'' = Str ''P1''"
  "ex_work ex_r6 ''order_date'' = Dt ((2024, 3, 2), 0)"
  "ex_work ex_r6 ''quantity'' = PInf"
  by (simp_all add: ex_work_present ex_r6_def ex_row_cells to_datetime_Dt valid_ex_dates
      to_numeric_Num to_numeric_Str ex_parse_num_def)

lemma ex_sanitize:
  "rows (sanitize ex_parse_date ex_parse_num \<lparr>columns = ex_header, rows = rs\<rparr>) =
     filter (\<lambda>r. cell_gt (fillna 0 (r ''quantity'')) 0)
       (filter (\<lambda>r. r ''order_id'' \<noteq> Null \<and> r ''customer_id'' \<noteq> Null \<and>
                     r ''product_id'' \<noteq> Null \<and> r ''order_date'' \<noteq> Null)
          (map ex_work rs))"
proof -
  have "ex_work = (\<lambda>r. coerce_row ex_parse_date ex_parse_num (copy_row (col_map ex_header) r))"
    by (rule ext) (simp add: ex_work_def)
  then show ?thesis
    by (simp add: rows_sanitize dropna_critical comp_def)
qed

lemma ex_rows_sanitize:
  "rows (sanitize ex_parse_date ex_parse_num ex_df) = [ex_work ex_r1, ex_work ex_r2]"
  unfolding ex_df_def ex_sanitize
  by (simp add: fillna_def ex_work_r1 ex_work_r2 ex_work_r3 ex_work_r4)


lemma ex_inf_rows_sanitize:
  "rows (sanitize ex_parse_date ex_parse_num ex_inf_df) = [ex_work ex_r6]"
  unfolding ex_inf_df_def ex_sanitize
  by (simp add: fillna_def ex_work_r3 ex_work_r4 ex_work_r6)

text \<open>
  The invariant on an example input of three rows: the row with no order id and the row
  with quantity 0 are dropped, and the row whose quantity is the text \<open>inf\<close> is kept,
  with the infinite float as its quantity.
\<close>

theorem sanitize_invariant_witness:
  "rows (sanitize ex_parse_date ex_parse_num ex_inf_df) = [ex_work ex_r6] \<and>
   ex_work ex_r6 ''order_id'' \<noteq> Null \<and> ex_work ex_r6 ''customer_id'' \<noteq> Null \<and>
   ex_work ex_r6 ''product_id'' \<noteq> Null \<and> ex_work ex_r6 ''order_date'' \<noteq> Null \<and>
   ex_work ex_r6 ''quantity'' = PInf \<and> cell_gt (ex_work ex_r6 ''quantity'') 0"
  using sanitize_invariant [of ex_parse_date ex_parse_num ex_inf_df]
  by (simp add: ex_inf_rows_sanitize ex_work_r6)

section \<open>Properties of the fact builder\<close>

lemma to_datetime_cases:
  "to_datetime pd c = Null \<or> (\<exists>d. to_datetime pd c = Dt d \<and> valid_ts d)"
  by (auto simp: to_datetime_def split: cell.splits option.splits)

lemma to_numeric_cases:
  "to_numeric pn c = Null \<or> to_numeric pn c = PInf \<or> to_numeric pn c = NInf \<or>
   (\<exists>x. to_numeric pn c = Num x)"
  by (auto simp: to_numeric_def split: cell.splits)

lemma coerce_row_order_date:
  "coerce_row pd pn r ''order_date'' = to_datetime pd (r ''order_date'')"
  by (simp add: coerce_row_def)

lemma coerce_row_numeric:
  "coerce_row pd pn r ''sales'' = to_numeric pn (r ''sales'')"
  "coerce_row pd pn r ''quantity'' = to_numeric pn (r ''quantity'')"
  "coerce_row pd pn r ''discount'' = to_numeric pn (r ''discount'')"
  "coerce_row pd pn r ''profit'' = to_numeric pn (r ''profit'')"
  by (simp_all add: coerce_row_def numeric_cols_def logical_fields_def)

lemma sanitize_row_source:
  assumes "r \<in> set (rows (sanitize pd pn df))"
  obtains r0 where "r0 \<in> set (rows df)"
    and "r = coerce_row pd pn (copy_row (col_map (columns df)) r0)"
  using assms by (auto simp: rows_sanitize dropna_critical)

lemma sanitize_order_date:
  assumes "r \<in> set (rows (sanitize pd pn df))"
  shows "\<exists>d. r ''order_date'' = Dt d \<and> valid_ts d"
proof -
  obtain r0 where r: "r = coerce_row pd pn (copy_row (col_map (columns df)) r0)"
    using assms by (rule sanitize_row_source)
  have "r ''order_date'' \<noteq> Null"
    using assms by (simp add: rows_sanitize dropna_critical)
  then show ?thesis
    using to_datetime_cases [of pd "copy_row (col_map (columns df)) r0 ''order_date''"]
    by (simp add: r coerce_row_order_date)
qed

lemma sanitize_absent:
  assumes "r \<in> set (rows (sanitize pd pn df))" "col_map (columns df) k = None"
  shows "r k = Null"
proof -
  obtain r0 where r: "r = coerce_row pd pn (copy_row (col_map (columns df)) r0)"
    using assms(1) by (rule sanitize_row_source)
  show ?thesis unfolding r using assms(2) by (rule work_cell_absent)
qed

text \<open>The key of the order date of a row, as the fact builder computes it.\<close>

definition date_key_cell :: "cell \<Rightarrow> cell" where
  "date_key_cell c = (case order_date_key c of Inr k \<Rightarrow> k | Inl e \<Rightarrow> Null)"

lemma add_order_date_key_Dt:
  assumes "\<forall>r \<in> set rs. \<exists>d. r ''order_date'' = Dt d"
  shows "add_order_date_key rs =
           Inr (map (\<lambda>r. r(''order_date_key'' := date_key_cell (r ''order_date''))) rs)"
  using assms by (induction rs) (auto simp: date_key_cell_def)

text \<open>
  The row of the fact table that the builder makes of the working row \<open>w\<close> at the
  position \<open>i\<close>, counted from 0: the steps of the builder, on one row.
\<close>

definition fact_row :: "nat \<Rightarrow> row \<Rightarrow> row" where
  "fact_row i w =
     (let r = w(''order_date_key'' := date_key_cell (w ''order_date''));
          r = rename_col ''sales'' ''sales_amount'' r;
          r = r(''sales_id'' := Num (of_nat (i + 1)));
          r = r(''gross_sales'' := gross_sales r);
          r = r(''discount_pct'' := discount_pct r)
      in project keep_cols r)"

lemma fact_cols:
  "filter (\<lambda>c. c \<in> set (with_col ''discount_pct'' (with_col ''gross_sales''
      (with_col ''sales_id'' (map (\<lambda>c. if c = ''sales'' then ''sales_amount'' else c)
         (with_col ''order_date_key'' logical_fields)))))) keep_cols = keep_cols"
  by (simp add: with_col_def logical_fields_def keep_cols_def)

lemma fact_sales_rows:
  assumes "columns work = logical_fields"
    and "\<forall>r \<in> set (rows work). \<exists>d. r ''order_date'' = Dt d"
  shows "fact_sales work =
           Inr \<lparr>columns = keep_cols,
                rows = map (\<lambda>(i, w). fact_row i w) (enumerate 0 (rows work))\<rparr>"
proof -
  have eq: "map (project keep_cols)
          (map (\<lambda>r. r(''discount_pct'' := discount_pct r))
             (map (\<lambda>r. r(''gross_sales'' := gross_sales r))
                (map (\<lambda>(i, r). r(''sales_id'' := Num (of_nat (i + 1))))
                   (enumerate 0
                      (map (rename_col ''sales'' ''sales_amount'')
                         (map (\<lambda>r. r(''order_date_key'' := date_key_cell (r ''order_date'')))
                            (rows work))))))) =
        map (\<lambda>(i, w). fact_row i w) (enumerate 0 (rows work))"
    by (rule nth_equalityI) (simp_all add: nth_enumerate_eq fact_row_def Let_def)
  show ?thesis
    by (simp only: fact_sales_def add_order_date_key_Dt [OF assms(2)] Let_def assms(1)
        fact_cols select_cols_def sum.case frame.select_convs eq)
qed

lemma fact_sales_sanitize:
  "fact_sales (sanitize pd pn df) =
     Inr \<lparr>columns = keep_cols,
          rows = map (\<lambda>(i, w). fact_row i w) (enumerate 0 (rows (sanitize pd pn df)))\<rparr>"
proof (rule fact_sales_rows)
  show "columns (sanitize pd pn df) = logical_fields"
    by (rule columns_sanitize)
  show "\<forall>r \<in> set (rows (sanitize pd pn df)). \<exists>d. r ''order_date'' = Dt d"
    using sanitize_order_date by blast
qed

lemma fact_row_carried:
  "fact_row i w ''order_id'' = w ''order_id''"
  "fact_row i w ''order_date'' = w ''order_date''"
  "fact_row i w ''ship_date'' = w ''ship_date''"
  "fact_row i w ''ship_mode'' = w ''ship_mode''"
  "fact_row i w ''customer_id'' = w ''customer_id''"
  "fact_row i w ''product_id'' = w ''product_id''"
  "fact_row i w ''country'' = w ''country''"
  "fact_row i w ''city'' = w ''city''"
  "fact_row i w ''state'' = w ''state''"
  "fact_row i w ''region'' = w ''region''"
  "fact_row i w ''quantity'' = w ''quantity''"
  "fact_row i w ''discount'' = w ''discount''"
  "fact_row i w ''profit'' = w ''profit''"
  "fact_row i w ''sales_amount'' = w ''sales''"
  by (simp_all add: fact_row_def Let_def project_def keep_cols_def rename_col_def)

lemma fact_row_derived:
  "fact_row i w ''sales_id'' = Num (of_nat (i + 1))"
  "fact_row i w ''order_date_key'' = date_key_cell (w ''order_date'')"
  "fact_row i w ''gross_sales'' = cell_add (fillna 0 (w ''sales'')) (fillna 0 (w ''discount''))"
  "fact_row i w ''discount_pct'' =
     np_where (cell_gt (cell_add (fillna 0 (w ''sales'')) (fillna 0 (w ''discount''))) 0)
       (cell_div (fillna 0 (w ''discount''))
          (cell_add (fillna 0 (w ''sales'')) (fillna 0 (w ''discount''))))
       (Num 0)"
  by (simp_all add: fact_row_def Let_def project_def keep_cols_def rename_col_def
      gross_sales_def discount_pct_def)

lemma fact_rows_nth:
  assumes "i < length ws"
  shows "map (\<lambda>(i, w). fact_row i w) (enumerate 0 ws) ! i = fact_row i (ws ! i)"
  using assms by (simp add: nth_enumerate_eq)

lemma fact_rows_col:
  assumes "\<And>i w. fact_row i w k = w k'"
  shows "map (\<lambda>r. r k) (map (\<lambda>(i, w). fact_row i w) (enumerate 0 ws)) = map (\<lambda>w. w k') ws"
  by (rule nth_equalityI) (simp_all add: nth_enumerate_eq assms)


text \<open>
  Claim C3. The fact builder raises nothing on a working frame and makes one fact row
  of each working row, in the order of the working rows: the sales ids are the integers
  1 to N in that order, all different, and the row with the sales id \<open>i + 1\<close> carries
  the fields of the working row at position \<open>i\<close>.
\<close>

theorem fact_sales_ids:
  "\<exists>fr. fact_sales (sanitize pd pn df) = Inr fr \<and>
     map (\<lambda>r. r ''sales_id'') (rows fr) =
       map (\<lambda>i. Num (of_nat (i + 1))) [0..<length (rows (sanitize pd pn df))] \<and>
     distinct (map (\<lambda>r. r ''sales_id'') (rows fr)) \<and>
     (\<forall>c \<in> set [''order_id'', ''order_date'', ''ship_date'', ''ship_mode'', ''customer_id'',
                  ''product_id'', ''country'', ''city'', ''state'', ''region'', ''quantity'',
                  ''discount'', ''profit''].
        map (\<lambda>r. r c) (rows fr) = map (\<lambda>w. w c) (rows (sanitize pd pn df))) \<and>
     map (\<lambda>r. r ''sales_amount'') (rows fr) =
       map (\<lambda>w. w ''sales'') (rows (sanitize pd pn df))"
proof -
  define fr where "fr = \<lparr>columns = keep_cols,
    rows = map (\<lambda>(i, w). fact_row i w) (enumerate 0 (rows (sanitize pd pn df)))\<rparr>"
  have eq: "fact_sales (sanitize pd pn df) = Inr fr"
    unfolding fr_def by (rule fact_sales_sanitize)
  have rows_fr: "rows fr = map (\<lambda>(i, w). fact_row i w) (enumerate 0 (rows (sanitize pd pn df)))"
    by (simp add: fr_def)
  have f0: "fact_sales (sanitize pd pn df) = Inr fr"
    by (rule eq)
  have f1: "map (\<lambda>r. r ''sales_id'') (rows fr) =
       map (\<lambda>i. Num (of_nat (i + 1))) [0..<length (rows (sanitize pd pn df))]"
    unfolding rows_fr
    by (rule nth_equalityI) (simp_all add: nth_enumerate_eq fact_row_derived)
  have "inj_on (\<lambda>i. Num (of_nat (i + 1))) (set [0..<length (rows (sanitize pd pn df))])"
    by (simp add: inj_on_def)
  then have f2: "distinct (map (\<lambda>r. r ''sales_id'') (rows fr))"
    unfolding f1 by (simp add: distinct_map)
  have f3: "(\<forall>c \<in> set [''order_id'', ''order_date'', ''ship_date'', ''ship_mode'', ''customer_id'',
                  ''product_id'', ''country'', ''city'', ''state'', ''region'', ''quantity'',
                  ''discount'', ''profit''].
        map (\<lambda>r. r c) (rows fr) = map (\<lambda>w. w c) (rows (sanitize pd pn df)))"
  proof
    fix c
    assume "c \<in> set [''order_id'', ''order_date'', ''ship_date'', ''ship_mode'', ''customer_id'',
                  ''product_id'', ''country'', ''city'', ''state'', ''region'', ''quantity'',
                  ''discount'', ''profit'']"
    then have "fact_row i w c = w c" for i w
      using fact_row_carried [of i w] by auto
    then show "map (\<lambda>r. r c) (rows fr) = map (\<lambda>w. w c) (rows (sanitize pd pn df))"
      unfolding rows_fr by (rule fact_rows_col)
  qed
  have f4: "map (\<lambda>r. r ''sales_amount'') (rows fr) =
       map (\<lambda>w. w ''sales'') (rows (sanitize pd pn df))"
    unfolding rows_fr by (rule fact_rows_col) (rule fact_row_carried)
  show ?thesis
  proof (rule exI [of _ fr], intro conjI)
    show "fact_sales (sanitize pd pn df) = Inr fr"
      by (rule f0)
    show "map (\<lambda>r. r ''sales_id'') (rows fr) =
       map (\<lambda>i. Num (of_nat (i + 1))) [0..<length (rows (sanitize pd pn df))]"
      by (rule f1)
    show "distinct (map (\<lambda>r. r ''sales_id'') (rows fr))"
      by (rule f2)
    show "(\<forall>c \<in> set [''order_id'', ''order_date'', ''ship_date'', ''ship_mode'', ''customer_id'',
                  ''product_id'', ''country'', ''city'', ''state'', ''region'', ''quantity'',
                  ''discount'', ''profit''].
        map (\<lambda>r. r c) (rows fr) = map (\<lambda>w. w c) (rows (sanitize pd pn df)))"
      by (rule f3)
    show "map (\<lambda>r. r ''sales_amount'') (rows fr) =
       map (\<lambda>w. w ''sales'') (rows (sanitize pd pn df))"
      by (rule f4)
  qed
qed


text \<open>
  Claim C8, as amended. The fact table always has the whole fixed set of fact columns.
  A fact field with no source column in the header of the input is a column of the fact
  table that is missing in every row: it is filled with nulls, not omitted.
\<close>

theorem fact_sales_keeps_absent_columns:
  "\<exists>fr. fact_sales (sanitize pd pn df) = Inr fr \<and>
     columns fr = keep_cols \<and>
     length (rows fr) = length (rows (sanitize pd pn df)) \<and>
     (\<forall>k \<in> set [''order_id'', ''order_date'', ''ship_date'', ''ship_mode'', ''customer_id'',
                  ''product_id'', ''country'', ''city'', ''state'', ''region'', ''quantity'',
                  ''discount'', ''profit''].
        col_map (columns df) k = None \<longrightarrow>
          k \<in> set (columns fr) \<and> (\<forall>r \<in> set (rows fr). r k = Null)) \<and>
     (col_map (columns df) ''sales'' = None \<longrightarrow>
        ''sales_amount'' \<in> set (columns fr) \<and>
        (\<forall>r \<in> set (rows fr). r ''sales_amount'' = Null))"
proof -
  define fr where "fr = \<lparr>columns = keep_cols,
    rows = map (\<lambda>(i, w). fact_row i w) (enumerate 0 (rows (sanitize pd pn df)))\<rparr>"
  have eq: "fact_sales (sanitize pd pn df) = Inr fr"
    unfolding fr_def by (rule fact_sales_sanitize)
  have rows_fr: "rows fr = map (\<lambda>(i, w). fact_row i w) (enumerate 0 (rows (sanitize pd pn df)))"
    by (simp add: fr_def)
  have cols: "columns fr = keep_cols"
    by (simp add: fr_def)
  have row: "\<exists>i w. r = fact_row i w \<and> w \<in> set (rows (sanitize pd pn df))"
    if "r \<in> set (rows fr)" for r
  proof -
    from that obtain i where "i < length (rows (sanitize pd pn df))"
      "r = fact_row i (rows (sanitize pd pn df) ! i)"
      by (auto simp: rows_fr in_set_enumerate_eq)
    then show ?thesis
      using nth_mem by blast
  qed
  have null: "w k = Null"
    if "w \<in> set (rows (sanitize pd pn df))" "col_map (columns df) k = None" for w k
    using that by (rule sanitize_absent)
  have f0: "fact_sales (sanitize pd pn df) = Inr fr"
    by (rule eq)
  have f1: "columns fr = keep_cols"
    by (rule cols)
  have f2: "length (rows fr) = length (rows (sanitize pd pn df))"
    by (simp add: rows_fr)
  have f3: "(\<forall>k \<in> set [''order_id'', ''order_date'', ''ship_date'', ''ship_mode'', ''customer_id'',
                  ''product_id'', ''country'', ''city'', ''state'', ''region'', ''quantity'',
                  ''discount'', ''profit''].
        col_map (columns df) k = None \<longrightarrow>
          k \<in> set (columns fr) \<and> (\<forall>r \<in> set (rows fr). r k = Null))"
  proof (intro ballI impI conjI)
    fix k
    assume k: "k \<in> set [''order_id'', ''order_date'', ''ship_date'', ''ship_mode'', ''customer_id'',
                  ''product_id'', ''country'', ''city'', ''state'', ''region'', ''quantity'',
                  ''discount'', ''profit'']"
      and absent: "col_map (columns df) k = None"
    show "k \<in> set (columns fr)"
      using k unfolding cols keep_cols_def by auto
    have same: "fact_row i w k = w k" for i w
      using k fact_row_carried [of i w] by auto
    fix r
    assume "r \<in> set (rows fr)"
    then obtain i w where "r = fact_row i w" "w \<in> set (rows (sanitize pd pn df))"
      using row by blast
    then show "r k = Null"
      using null [OF _ absent] same by simp
  qed
  have f4: "(col_map (columns df) ''sales'' = None \<longrightarrow>
        ''sales_amount'' \<in> set (columns fr) \<and>
        (\<forall>r \<in> set (rows fr). r ''sales_amount'' = Null))"
  proof (intro ballI impI conjI)
    assume absent: "col_map (columns df) ''sales'' = None"
    show "''sales_amount'' \<in> set (columns fr)"
      unfolding cols keep_cols_def by simp
    fix r
    assume "r \<in> set (rows fr)"
    then obtain i w where "r = fact_row i w" "w \<in> set (rows (sanitize pd pn df))"
      using row by blast
    then show "r ''sales_amount'' = Null"
      using null [OF _ absent] by (simp add: fact_row_carried)
  qed
  show ?thesis
  proof (rule exI [of _ fr], intro conjI)
    show "fact_sales (sanitize pd pn df) = Inr fr"
      by (rule f0)
    show "columns fr = keep_cols"
      by (rule f1)
    show "length (rows fr) = length (rows (sanitize pd pn df))"
      by (rule f2)
    show "(\<forall>k \<in> set [''order_id'', ''order_date'', ''ship_date'', ''ship_mode'', ''customer_id'',
                  ''product_id'', ''country'', ''city'', ''state'', ''region'', ''quantity'',
                  ''discount'', ''profit''].
        col_map (columns df) k = None \<longrightarrow>
          k \<in> set (columns fr) \<and> (\<forall>r \<in> set (rows fr). r k = Null))"
      by (rule f3)
    show "(col_map (columns df) ''sales'' = None \<longrightarrow>
        ''sales_amount'' \<in> set (columns fr) \<and>
        (\<forall>r \<in> set (rows fr). r ''sales_amount'' = Null))"
      by (rule f4)
  qed
qed

subsection \<open>The fact table of the example input\<close>

text \<open>
  On the example input the sales ids are 1 and 2, on the working rows of the orders
  1 and 2.
\<close>

theorem fact_sales_ids_witness:
  "\<exists>fr. fact_sales (sanitize ex_parse_date ex_parse_num ex_df) = Inr fr \<and>
     map (\<lambda>r. r ''sales_id'') (rows fr) = [Num 1, Num 2] \<and>
     map (\<lambda>r. r ''order_id'') (rows fr) = [Num 1, Num 2] \<and>
     map (\<lambda>r. r ''sales_amount'') (rows fr) = [Num 100, Num (- 150)]"
proof -
  from fact_sales_ids [of ex_parse_date ex_parse_num ex_df]
  obtain fr where all:
    "fact_sales (sanitize ex_parse_date ex_parse_num ex_df) = Inr fr \<and>
     map (\<lambda>r. r ''sales_id'') (rows fr) =
       map (\<lambda>i. Num (of_nat (i + 1))) [0..<length (rows (sanitize ex_parse_date ex_parse_num ex_df))] \<and>
     distinct (map (\<lambda>r. r ''sales_id'') (rows fr)) \<and>
     (\<forall>c \<in> set [''order_id'', ''order_date'', ''ship_date'', ''ship_mode'', ''customer_id'',
                  ''product_id'', ''country'', ''city'', ''state'', ''region'', ''quantity'',
                  ''discount'', ''profit''].
        map (\<lambda>r. r c) (rows fr) = map (\<lambda>w. w c) (rows (sanitize ex_parse_date ex_parse_num ex_df))) \<and>
     map (\<lambda>r. r ''sales_amount'') (rows fr) =
       map (\<lambda>w. w ''sales'') (rows (sanitize ex_parse_date ex_parse_num ex_df))"
    by (rule exE)
  note fr = all [THEN conjunct1]
    and ids = all [THEN conjunct2, THEN conjunct1]
    and carried = all [THEN conjunct2, THEN conjunct2, THEN conjunct2, THEN conjunct1]
    and sales = all [THEN conjunct2, THEN conjunct2, THEN conjunct2, THEN conjunct2]
  have a: "map (\<lambda>r. r ''sales_id'') (rows fr) = [Num 1, Num 2]"
    unfolding ids ex_rows_sanitize by (simp add: upt_rec)
  have "map (\<lambda>r. r ''order_id'') (rows fr) =
      map (\<lambda>w. w ''order_id'') (rows (sanitize ex_parse_date ex_parse_num ex_df))"
    using carried by simp
  then have b: "map (\<lambda>r. r ''order_id'') (rows fr) = [Num 1, Num 2]"
    unfolding ex_rows_sanitize by (simp add: ex_work_r1 ex_work_r2)
  have c: "map (\<lambda>r. r ''sales_amount'') (rows fr) = [Num 100, Num (- 150)]"
    unfolding sales ex_rows_sanitize by (simp add: ex_work_r1 ex_work_r2)
  show ?thesis
    by (rule exI [of _ fr]) (intro conjI fr a b c)
qed


text \<open>
  The example input has no column for the ship mode: the fact table has the column, and
  it is missing in both rows.
\<close>

theorem fact_sales_keeps_absent_columns_witness:
  "col_map (columns ex_df) ''ship_mode'' = None \<and>
   (\<exists>fr. fact_sales (sanitize ex_parse_date ex_parse_num ex_df) = Inr fr \<and>
      length (rows fr) = 2 \<and> ''ship_mode'' \<in> set (columns fr) \<and>
      (rows fr ! 0) ''ship_mode'' = Null \<and> (rows fr ! 1) ''ship_mode'' = Null)"
proof -
  have absent: "col_map (columns ex_df) ''ship_mode'' = None"
    by (simp add: ex_df_def ex_col_map_absent)
  from fact_sales_keeps_absent_columns [of ex_parse_date ex_parse_num ex_df]
  obtain fr where all:
    "fact_sales (sanitize ex_parse_date ex_parse_num ex_df) = Inr fr \<and>
     columns fr = keep_cols \<and>
     length (rows fr) = length (rows (sanitize ex_parse_date ex_parse_num ex_df)) \<and>
     (\<forall>k \<in> set [''order_id'', ''order_date'', ''ship_date'', ''ship_mode'', ''customer_id'',
                  ''product_id'', ''country'', ''city'', ''state'', ''region'', ''quantity'',
                  ''discount'', ''profit''].
        col_map (columns ex_df) k = None \<longrightarrow>
          k \<in> set (columns fr) \<and> (\<forall>r \<in> set (rows fr). r k = Null)) \<and>
     (col_map (columns ex_df) ''sales'' = None \<longrightarrow>
        ''sales_amount'' \<in> set (columns fr) \<and>
        (\<forall>r \<in> set (rows fr). r ''sales_amount'' = Null))"
    by (rule exE)
  note fr = all [THEN conjunct1]
    and len = all [THEN conjunct2, THEN conjunct2, THEN conjunct1]
    and carried = all [THEN conjunct2, THEN conjunct2, THEN conjunct2, THEN conjunct1]
  have l: "length (rows fr) = 2"
    using len by (simp add: ex_rows_sanitize)
  have m: "''ship_mode'' \<in> set (columns fr) \<and> (\<forall>r \<in> set (rows fr). r ''ship_mode'' = Null)"
    using carried absent by simp
  have "rows fr ! 0 \<in> set (rows fr)" "rows fr ! 1 \<in> set (rows fr)"
    using l by simp_all
  then have n: "(rows fr ! 0) ''ship_mode'' = Null" "(rows fr ! 1) ''ship_mode'' = Null"
    using m by simp_all
  show ?thesis
    by (rule conjI, rule absent, rule exI [of _ fr]) (intro conjI fr l m [THEN conjunct1] n)
qed

text \<open>
  Claim C8 as stated fails: the header of the example input has no column for the
  profit, and the fact table made of it has the column \<open>profit\<close>, missing in both rows.
\<close>

theorem fact_sales_absent_column_counterexample:
  "''profit'' \<notin> set (columns ex_df) \<and> col_map (columns ex_df) ''profit'' = None \<and>
   (\<exists>fr. fact_sales (sanitize ex_parse_date ex_parse_num ex_df) = Inr fr \<and>
      ''profit'' \<in> set (columns fr) \<and>
      map (\<lambda>r. r ''profit'') (rows fr) = [Null, Null])"
proof -
  have "''profit'' \<notin> set (columns ex_df)"
    by (simp add: ex_df_def ex_header_def)
  moreover have "col_map (columns ex_df) ''profit'' = None"
    by (simp add: ex_df_def ex_col_map_absent)
  moreover have "''profit'' \<in> set keep_cols"
    by (simp add: keep_cols_def)
  ultimately show ?thesis
    by (simp add: fact_sales_sanitize ex_rows_sanitize fact_row_carried ex_work_absent)
qed

section \<open>Properties of the customer dimension\<close>

lemma project_apply: "k \<in> set cs \<Longrightarrow> project cs r k = r k"
  by (simp add: project_def)

lemma project_tuple: "map (project cs r) cs = map r cs"
  by (simp add: project_apply)

lemma drop_dups_set:
  "set (map (\<lambda>r. map r cs) (drop_dups cs seen rs)) = set (map (\<lambda>r. map r cs) rs) - set seen"
  by (induction rs arbitrary: seen) auto

lemma drop_dups_distinct: "distinct (map (\<lambda>r. map r cs) (drop_dups cs seen rs))"
proof (induction rs arbitrary: seen)
  case Nil
  show ?case by simp
next
  case (Cons r rs)
  have "map r cs \<notin> set (map (\<lambda>r. map r cs) (drop_dups cs (map r cs # seen) rs))"
    unfolding drop_dups_set by simp
  then show ?case
    using Cons.IH by simp
qed

lemma rows_dim_customer:
  "rows (dim_customer work) = drop_dups customer_cols [] (map (project customer_cols) (rows work))"
  by (simp add: dim_customer_def drop_duplicates_def select_cols_def)

lemma columns_dim_customer: "columns (dim_customer work) = customer_cols"
  by (simp add: dim_customer_def drop_duplicates_def select_cols_def)

lemma tuple_customer_id:
  "map r customer_cols = map r' customer_cols \<Longrightarrow> r ''customer_id'' = r' ''customer_id''"
  by (simp add: customer_cols_def)

lemma dim_customer_tuples:
  "set (map (\<lambda>r. map r customer_cols) (rows (dim_customer work))) =
   set (map (\<lambda>r. map r customer_cols) (rows work))"
  unfolding rows_dim_customer drop_dups_set
  by (simp add: project_tuple comp_def)

text \<open>
  Claim C5, as amended. The customer dimension has the eight customer columns and one
  row for each distinct tuple of their values in the working rows: its tuples are all
  different, and they are the tuples of the working rows. So every customer id of the
  working rows is in the dimension, at least once; it is there exactly once when the
  working rows of each customer id agree on the seven other columns.
\<close>

theorem dim_customer_one_row_per_tuple:
  "columns (dim_customer work) = customer_cols \<and>
   distinct (map (\<lambda>r. map r customer_cols) (rows (dim_customer work))) \<and>
   set (map (\<lambda>r. map r customer_cols) (rows (dim_customer work))) =
     set (map (\<lambda>r. map r customer_cols) (rows work)) \<and>
   (\<lambda>r. r ''customer_id'') ` set (rows (dim_customer work)) =
     (\<lambda>r. r ''customer_id'') ` set (rows work) \<and>
   ((\<forall>r \<in> set (rows work). \<forall>r' \<in> set (rows work).
       r ''customer_id'' = r' ''customer_id'' \<longrightarrow> map r customer_cols = map r' customer_cols)
    \<longrightarrow> distinct (map (\<lambda>r. r ''customer_id'') (rows (dim_customer work))))"
proof (intro conjI impI)
  let ?t = "\<lambda>r. map r customer_cols"
  let ?dc = "rows (dim_customer work)"
  show "columns (dim_customer work) = customer_cols"
    by (rule columns_dim_customer)
  show d: "distinct (map ?t ?dc)"
    unfolding rows_dim_customer by (rule drop_dups_distinct)
  show s: "set (map ?t ?dc) = set (map ?t (rows work))"
    by (rule dim_customer_tuples)
  have src: "\<exists>w \<in> set (rows work). ?t w = ?t r" if "r \<in> set ?dc" for r
  proof -
    have "?t r \<in> set (map ?t (rows work))"
      using that s by auto
    then show ?thesis by auto
  qed
  have tgt: "\<exists>r \<in> set ?dc. ?t r = ?t w" if "w \<in> set (rows work)" for w
  proof -
    have "?t w \<in> set (map ?t ?dc)"
      using that s by auto
    then show ?thesis by auto
  qed
  show "(\<lambda>r. r ''customer_id'') ` set ?dc = (\<lambda>r. r ''customer_id'') ` set (rows work)"
  proof (intro set_eqI iffI)
    fix c
    assume "c \<in> (\<lambda>r. r ''customer_id'') ` set ?dc"
    then obtain r where r: "r \<in> set ?dc" "c = r ''customer_id''" by auto
    then obtain w where w: "w \<in> set (rows work)" "?t w = ?t r"
      using src by blast
    have "c = w ''customer_id''"
      using r(2) tuple_customer_id [OF w(2)] by simp
    then show "c \<in> (\<lambda>r. r ''customer_id'') ` set (rows work)"
      using w(1) by (rule image_eqI)
  next
    fix c
    assume "c \<in> (\<lambda>r. r ''customer_id'') ` set (rows work)"
    then obtain w where w: "w \<in> set (rows work)" "c = w ''customer_id''" by auto
    then obtain r where r: "r \<in> set ?dc" "?t r = ?t w"
      using tgt by blast
    have "c = r ''customer_id''"
      using w(2) tuple_customer_id [OF r(2)] by simp
    then show "c \<in> (\<lambda>r. r ''customer_id'') ` set ?dc"
      using r(1) by (rule image_eqI)
  qed
  assume agree: "\<forall>r \<in> set (rows work). \<forall>r' \<in> set (rows work).
       r ''customer_id'' = r' ''customer_id'' \<longrightarrow> ?t r = ?t r'"
  have inj_t: "inj_on ?t (set ?dc)" and dist: "distinct ?dc"
    using d by (simp_all add: distinct_map)
  have "inj_on (\<lambda>r. r ''customer_id'') (set ?dc)"
  proof (rule inj_onI)
    fix r r'
    assume r: "r \<in> set ?dc" and r': "r' \<in> set ?dc"
      and c: "r ''customer_id'' = r' ''customer_id''"
    obtain w where w: "w \<in> set (rows work)" "?t w = ?t r"
      using src r by blast
    obtain w' where w': "w' \<in> set (rows work)" "?t w' = ?t r'"
      using src r' by blast
    have "w ''customer_id'' = w' ''customer_id''"
      using c tuple_customer_id [OF w(2)] tuple_customer_id [OF w'(2)] by simp
    then have "?t w = ?t w'"
      using agree w(1) w'(1) by blast
    then have "?t r = ?t r'"
      using w(2) w'(2) by simp
    with inj_t show "r = r'"
      using r r' by (rule inj_onD)
  qed
  then show "distinct (map (\<lambda>r. r ''customer_id'') ?dc)"
    using dist by (simp add: distinct_map)
qed

subsection \<open>The customer dimension of the example input\<close>

definition ex_dup_df :: frame where
  "ex_dup_df = \<lparr>columns = ex_header, rows = [ex_r1, ex_r5, ex_r1]\<rparr>"

lemma ex_dup_rows_sanitize:
  "rows (sanitize ex_parse_date ex_parse_num ex_dup_df) =
     [ex_work ex_r1, ex_work ex_r5, ex_work ex_r1]"
  unfolding ex_dup_df_def ex_sanitize
  by (simp add: fillna_def ex_work_r1 ex_work_r5)

lemma ex_tuple:
  "map (ex_work r) customer_cols =
     [ex_work r ''customer_id'', Null, Null, Null, ex_work r ''city'', Null, Null, Null]"
  by (simp add: customer_cols_def ex_work_absent)

text \<open>
  An input with two orders of the customer C1, both in Rome, and one of the customer
  C3: the two customer ids are in the dimension, each once.
\<close>

theorem dim_customer_one_row_per_tuple_witness:
  "map (\<lambda>r. r ''customer_id'') (rows (sanitize ex_parse_date ex_parse_num ex_dup_df)) =
     [Str ''C1'', Str ''C3'', Str ''C1''] \<and>
   (\<lambda>r. r ''customer_id'') ` set (rows (dim_customer (sanitize ex_parse_date ex_parse_num ex_dup_df))) =
     {Str ''C1'', Str ''C3''} \<and>
   distinct (map (\<lambda>r. r ''customer_id'')
     (rows (dim_customer (sanitize ex_parse_date ex_parse_num ex_dup_df))))"
proof -
  let ?work = "sanitize ex_parse_date ex_parse_num ex_dup_df"
  have ids: "map (\<lambda>r. r ''customer_id'') (rows ?work) = [Str ''C1'', Str ''C3'', Str ''C1'']"
    by (simp add: ex_dup_rows_sanitize ex_work_r1 ex_work_r5)
  have agree: "\<forall>r \<in> set (rows ?work). \<forall>r' \<in> set (rows ?work).
       r ''customer_id'' = r' ''customer_id'' \<longrightarrow> map r customer_cols = map r' customer_cols"
    by (simp add: ex_dup_rows_sanitize ex_work_r1 ex_work_r5)
  note all = dim_customer_one_row_per_tuple [of ?work]
  have "(\<lambda>r. r ''customer_id'') ` set (rows (dim_customer ?work)) =
      (\<lambda>r. r ''customer_id'') ` set (rows ?work)"
    using all by (elim conjE)
  then have img: "(\<lambda>r. r ''customer_id'') ` set (rows (dim_customer ?work)) =
      {Str ''C1'', Str ''C3''}"
    by (auto simp: ex_dup_rows_sanitize ex_work_r1 ex_work_r5)
  have "distinct (map (\<lambda>r. r ''customer_id'') (rows (dim_customer ?work)))"
    using all agree by (elim conjE) (erule mp)
  then show ?thesis
    using ids img by (intro conjI)
qed

text \<open>
  Claim C5 as stated fails: the two working rows of the example input are orders of the
  same customer C1, one in Rome and one in Oslo, and the customer dimension has two rows
  for that one customer id.
\<close>

theorem dim_customer_two_rows_counterexample:
  "map (\<lambda>r. r ''customer_id'') (rows (sanitize ex_parse_date ex_parse_num ex_df)) =
     [Str ''C1'', Str ''C1''] \<and>
   map (\<lambda>r. r ''customer_id'') (rows (dim_customer (sanitize ex_parse_date ex_parse_num ex_df))) =
     [Str ''C1'', Str ''C1''] \<and>
   map (\<lambda>r. r ''city'') (rows (dim_customer (sanitize ex_parse_date ex_parse_num ex_df))) =
     [Str ''Rome'', Str ''Oslo'']"
proof -
  have cid: "''customer_id'' \<in> set customer_cols" and city: "''city'' \<in> set customer_cols"
    by (simp_all add: customer_cols_def)
  have "rows (dim_customer (sanitize ex_parse_date ex_parse_num ex_df)) =
      [project customer_cols (ex_work ex_r1), project customer_cols (ex_work ex_r2)]"
    by (simp add: rows_dim_customer ex_rows_sanitize project_tuple ex_tuple
        ex_work_r1 ex_work_r2)
  then show ?thesis
    by (simp add: ex_rows_sanitize project_apply [OF cid] project_apply [OF city]
        ex_work_r1 ex_work_r2)
qed

section \<open>Properties of the export\<close>

lemma export_loop_eq:
  "export_loop conn ts files =
     (files @ map (\<lambda>t. (t @ ''.csv'', the (conn t))) (takeWhile (\<lambda>t. conn t \<noteq> None) ts),
      case find (\<lambda>t. conn t = None) ts of
        None \<Rightarrow> None
      | Some t \<Rightarrow> Some (DatabaseError t))"
proof (induction ts arbitrary: files)
  case Nil
  show ?case by simp
next
  case (Cons t ts)
  show ?case
  proof (cases "conn t")
    case None
    then show ?thesis by (simp add: read_sql_query_def)
  next
    case (Some df)
    then show ?thesis by (simp add: read_sql_query_def Cons.IH)
  qed
qed

text \<open>
  Claim C9, as amended. The export reads the six tables in their fixed order and
  tolerates no missing table: it writes one file for each table before the first
  one that the database does not have, then ends with the DatabaseError of that table,
  and no later table is exported. When no table is missing, all six are exported and
  no error is raised.
\<close>

theorem export_stops_at_first_missing_table:
  "export conn =
     (map (\<lambda>t. (t @ ''.csv'', the (conn t))) (takeWhile (\<lambda>t. conn t \<noteq> None) export_tables),
      case find (\<lambda>t. conn t = None) export_tables of
        None \<Rightarrow> None
      | Some t \<Rightarrow> Some (DatabaseError t))"
  by (simp add: export_def export_loop_eq)

definition ex_table :: frame where
  "ex_table = \<lparr>columns = [''customer_id''], rows = [(\<lambda>k. Null)(''customer_id'' := Str ''C1'')]\<rparr>"

definition ex_conn :: database where
  "ex_conn = Map.empty(''sa_dim_customer'' \<mapsto> ex_table)"

text \<open>
  Claim C9 as stated fails: in a database that holds the customer dimension and lacks
  the fact table, the first table of the loop, the export writes no file at all.
\<close>

theorem export_missing_table_counterexample:
  "ex_conn ''sa_fact_sales'' = None \<and> ex_conn ''sa_dim_customer'' = Some ex_table \<and>
   export ex_conn = ([], Some (DatabaseError ''sa_fact_sales''))"
  by (simp add: export_def export_tables_def read_sql_query_def ex_conn_def)

end
